theory Spec2Isabelle
  imports Main
begin

section \<open>Strings and JavaScript values\<close>

text \<open>
  A JavaScript string is modelled as a \<^typ>\<open>string\<close>, one \<^typ>\<open>char\<close> per code
  unit (code units below 256). A value that may be \<^verbatim>\<open>undefined\<close> or \<^verbatim>\<open>null\<close> is an
  option. A string is falsy exactly when it is empty, and so are \<^verbatim>\<open>undefined\<close> and
  \<^verbatim>\<open>null\<close>.
\<close>

definition truthy :: "string option \<Rightarrow> bool" where
  "truthy v = (case v of None \<Rightarrow> False | Some s \<Rightarrow> s \<noteq> [])"

text \<open>\<^verbatim>\<open>a || b\<close> on strings.\<close>

definition or_else :: "string option \<Rightarrow> string \<Rightarrow> string" where
  "or_else v d = (case v of None \<Rightarrow> d | Some s \<Rightarrow> if s = [] then d else s)"

text \<open>
  The white space and line terminators that \<^verbatim>\<open>String.prototype.trim\<close> removes, among the
  code units below 256: TAB, LF, VT, FF, CR, SPACE and NBSP.
\<close>

definition isWhiteSpace :: "char \<Rightarrow> bool" where
  "isWhiteSpace c = (of_char c \<in> {9, 10, 11, 12, 13, 32, 160 :: nat})"

definition trim :: "string \<Rightarrow> string" where
  "trim s = rev (dropWhile isWhiteSpace (rev (dropWhile isWhiteSpace s)))"

text \<open>\<^verbatim>\<open>s.slice(0, n)\<close> for a non-negative \<open>n\<close>.\<close>

definition slice0 :: "nat \<Rightarrow> string \<Rightarrow> string" where
  "slice0 n s = take n s"

text \<open>\<^verbatim>\<open>xs.join(sep)\<close>.\<close>

fun join :: "string \<Rightarrow> string list \<Rightarrow> string" where
  "join sep [] = []"
| "join sep [x] = x"
| "join sep (x # y # ys) = x @ sep @ join sep (y # ys)"

text \<open>The decimal text of a number, as a template literal prints it.\<close>

fun digits_acc :: "nat \<Rightarrow> nat \<Rightarrow> string \<Rightarrow> string" where
  "digits_acc 0 n acc = acc"
| "digits_acc (Suc fuel) n acc =
     (let acc' = (''0123456789'' ! (n mod 10)) # acc
      in if n div 10 = 0 then acc' else digits_acc fuel (n div 10) acc')"

definition show_nat :: "nat \<Rightarrow> string" where
  "show_nat n = digits_acc (Suc n) n []"

section \<open>The backend selector of the chat routes\<close>

type_synonym service = string

definition OPENAI :: service where
  "OPENAI = ''openai''"

definition OPENROUTER :: service where
  "OPENROUTER = ''openrouter''"

text \<open>The two credentials read from \<^verbatim>\<open>process.env\<close>.\<close>

record env =
  OPENAI_API_KEY :: "string option"
  OPENROUTER_API_KEY :: "string option"

text \<open>One entry of the \<^verbatim>\<open>messages\<close> array posted to a backend; the roles are the
  strings \<^verbatim>\<open>'system'\<close>, \<^verbatim>\<open>'user'\<close> and \<^verbatim>\<open>'assistant'\<close>.\<close>

datatype role = System | User | Assistant

record entry =
  e_role :: role
  e_content :: string

record usage =
  prompt_tokens :: nat
  completion_tokens :: nat
  total_tokens :: nat

text \<open>
  What one \<^verbatim>\<open>axios.post\<close> to a backend comes to inside the \<^verbatim>\<open>try\<close> block: either
  something throws (a timeout, an HTTP error status, a response body on which
  \<^verbatim>\<open>response.data.choices[0].message.content\<close> cannot be read), or the reply text and
  the usage object are read off the response.
\<close>

datatype http_outcome = Failed | Replied string "usage option"

type_synonym backends = "service \<Rightarrow> entry list \<Rightarrow> http_outcome"

record ai_result =
  r_content :: string
  r_service :: string
  r_usage :: "usage option"

datatype llm_error = AllUnavailable

text \<open>The first half of \<^verbatim>\<open>getAIResponse\<close>: the \<^verbatim>\<open>services\<close> array.\<close>

definition service_priority :: "env \<Rightarrow> service option \<Rightarrow> service list" where
  "service_priority e preferredService =
     (let services0 =
            (if preferredService = Some OPENAI \<and> truthy (OPENAI_API_KEY e) then [OPENAI]
             else if preferredService = Some OPENROUTER \<and> truthy (OPENROUTER_API_KEY e)
             then [OPENROUTER]
             else []);
          services1 =
            (if truthy (OPENAI_API_KEY e) \<and> OPENAI \<notin> set services0
             then services0 @ [OPENAI] else services0);
          services2 =
            (if truthy (OPENROUTER_API_KEY e) \<and> OPENROUTER \<notin> set services1
             then services1 @ [OPENROUTER] else services1)
      in services2)"

text \<open>
  The second half: the \<^verbatim>\<open>for\<close> loop over \<^verbatim>\<open>services\<close>. The result is paired with the
  list of the posts made, each with its backend and the \<^verbatim>\<open>messages\<close> it carried, in the
  order of the posts. Running off the
  end of the loop is the \<^verbatim>\<open>throw\<close> of the last line.
\<close>

type_synonym attempt = "service \<times> entry list"

fun try_services ::
  "backends \<Rightarrow> entry list \<Rightarrow> service list \<Rightarrow> (llm_error + ai_result) \<times> attempt list" where
  "try_services post messages [] = (Inl AllUnavailable, [])"
| "try_services post messages (s # rest) =
     (if s = OPENAI then
        (case post OPENAI messages of
           Replied c u \<Rightarrow>
             (Inr \<lparr>r_content = c, r_service = ''OpenAI GPT-3.5-turbo'', r_usage = u\<rparr>, [(s, messages)])
         | Failed \<Rightarrow>
             (let (r, tr) = try_services post messages rest in (r, (s, messages) # tr)))
      else if s = OPENROUTER then
        (case post OPENROUTER messages of
           Replied c u \<Rightarrow>
             (Inr \<lparr>r_content = c, r_service = ''OpenRouter GPT-3.5-turbo'', r_usage = u\<rparr>, [(s, messages)])
         | Failed \<Rightarrow>
             (let (r, tr) = try_services post messages rest in (r, (s, messages) # tr)))
      else try_services post messages rest)"

definition getAIResponse ::
  "env \<Rightarrow> backends \<Rightarrow> entry list \<Rightarrow> service option \<Rightarrow> (llm_error + ai_result) \<times> attempt list"
  where
  "getAIResponse e post messages preferredService =
     try_services post messages (service_priority e preferredService)"

text \<open>
  The selection policy in the words of the specification: a backend is configured when
  its credential is; the preferred backend, if given and configured, comes first; every
  other configured backend follows, in the fixed order OpenAI, OpenRouter.
\<close>

definition configured :: "env \<Rightarrow> service \<Rightarrow> bool" where
  "configured e s =
     (if s = OPENAI then truthy (OPENAI_API_KEY e)
      else if s = OPENROUTER then truthy (OPENROUTER_API_KEY e)
      else False)"

definition spec_first :: "env \<Rightarrow> service option \<Rightarrow> service list" where
  "spec_first e preferredService =
     (case preferredService of
        None \<Rightarrow> []
      | Some p \<Rightarrow> if configured e p then [p] else [])"

definition spec_order :: "env \<Rightarrow> service option \<Rightarrow> service list" where
  "spec_order e preferredService =
     spec_first e preferredService
     @ filter (\<lambda>s. configured e s \<and> s \<notin> set (spec_first e preferredService))
         [OPENAI, OPENROUTER]"

text \<open>The attempts a list of backends in priority order gives rise to: every backend
  up to and including the first one that replies.\<close>

definition attempts_of :: "backends \<Rightarrow> entry list \<Rightarrow> service list \<Rightarrow> service list" where
  "attempts_of post messages order =
     takeWhile (\<lambda>s. post s messages = Failed) order
     @ take 1 (dropWhile (\<lambda>s. post s messages = Failed) order)"


section \<open>The persistence layer\<close>

text \<open>
  Identifiers are opaque; the store hands out a new one from a counter. The projects
  table is keyed by its primary key \<^verbatim>\<open>id\<close> (the \<^verbatim>\<open>where: { id }\<close> of \<^verbatim>\<open>update\<close> and
  \<^verbatim>\<open>delete\<close> selects by it); the other tables are lists of rows in the order of their
  creation. The \<^verbatim>\<open>now()\<close> default of a time column is a clock that advances with every
  row created. Every operation on the store succeeds.
\<close>

type_synonym ident = nat

record project =
  p_userId :: ident
  p_name :: string
  p_description :: "string option"
  p_systemPrompt :: "string option"

record chat =
  c_id :: ident
  c_projectId :: ident
  c_title :: string
  c_createdAt :: nat

record message =
  m_id :: ident
  m_chatId :: ident
  m_role :: role
  m_content :: string
  m_timestamp :: nat

datatype file_status = Uploading | Processed | Error

record file_row =
  f_id :: ident
  f_filename :: string
  f_originalName :: string
  f_mimeType :: string
  f_size :: nat
  f_projectId :: ident
  f_openaiFileId :: "string option"
  f_status :: file_status
  f_errorMessage :: "string option"

record db =
  projects :: "ident \<rightharpoonup> project"
  chats :: "chat list"
  messages :: "message list"
  files :: "file_row list"
  next_id :: ident
  clock :: nat

text \<open>What a route sends back: the status and the \<^verbatim>\<open>data\<close> or the \<^verbatim>\<open>message\<close>.\<close>

datatype 'a reply =
  Json200 'a
| Json201 'a
| Error400 string
| Error404 string
| Error500 string

text \<open>\<^verbatim>\<open>prisma.project.findFirst({ where: { id, userId } })\<close>.\<close>

definition project_findFirst :: "db \<Rightarrow> ident \<Rightarrow> ident \<Rightarrow> project option" where
  "project_findFirst d pid uid =
     (case projects d pid of
        None \<Rightarrow> None
      | Some p \<Rightarrow> if p_userId p = uid then Some p else None)"

text \<open>The relation filter \<^verbatim>\<open>project: { userId }\<close> on a row that names its project.\<close>

definition project_owned :: "db \<Rightarrow> ident \<Rightarrow> ident \<Rightarrow> bool" where
  "project_owned d pid uid = (project_findFirst d pid uid \<noteq> None)"

text \<open>
  \<^verbatim>\<open>prisma.chat.findFirst\<close> of the send-message route: the chat with this id under a
  project of this user, with the project and the ten latest messages, latest first.
\<close>

definition chat_messages :: "db \<Rightarrow> ident \<Rightarrow> message list" where
  "chat_messages d chatId = filter (\<lambda>m. m_chatId m = chatId) (messages d)"

definition latest_messages :: "db \<Rightarrow> ident \<Rightarrow> message list" where
  "latest_messages d chatId = take 10 (rev (sort_key m_timestamp (chat_messages d chatId)))"

definition chat_findFirst ::
  "db \<Rightarrow> ident \<Rightarrow> ident \<Rightarrow> (chat \<times> project \<times> message list) option" where
  "chat_findFirst d chatId uid =
     (case find (\<lambda>c. c_id c = chatId \<and> project_owned d (c_projectId c) uid) (chats d) of
        None \<Rightarrow> None
      | Some c \<Rightarrow>
          (case projects d (c_projectId c) of
             None \<Rightarrow> None
           | Some p \<Rightarrow> Some (c, p, latest_messages d chatId)))"

text \<open>\<^verbatim>\<open>prisma.message.create\<close>.\<close>

definition message_create :: "db \<Rightarrow> ident \<Rightarrow> role \<Rightarrow> string \<Rightarrow> message \<times> db" where
  "message_create d chatId r body =
     (let row = \<lparr>m_id = next_id d, m_chatId = chatId, m_role = r, m_content = body,
                 m_timestamp = clock d\<rparr>
      in (row, d\<lparr>messages := messages d @ [row], next_id := Suc (next_id d),
                 clock := Suc (clock d)\<rparr>))"

text \<open>\<^verbatim>\<open>prisma.file.findMany\<close> of the send-message route: the files whose external
  reference is among \<^verbatim>\<open>fileIds\<close>, under a project of this user.\<close>

definition file_findMany :: "db \<Rightarrow> string list \<Rightarrow> ident \<Rightarrow> file_row list" where
  "file_findMany d fileIds uid =
     filter (\<lambda>f. (case f_openaiFileId f of None \<Rightarrow> False | Some i \<Rightarrow> i \<in> set fileIds)
                \<and> project_owned d (f_projectId f) uid) (files d)"

section \<open>The send-message route\<close>

record send_req =
  sm_userId :: ident
  sm_chatId :: ident
  sm_content :: "string option"
  sm_fileIds :: "string list option"

record send_data =
  userMessage :: message
  assistantMessage :: message
  meta_service :: string
  meta_usage :: "usage option"

text \<open>The effects of the route, in the order in which they happen.\<close>

datatype event = MessageCreate message | BackendPost service "entry list"

definition newline :: string where
  "newline = [CHR 0x0A]"

definition dquote :: string where
  "dquote = [CHR 0x22]"

definition fileContext_of :: "db \<Rightarrow> ident \<Rightarrow> string list option \<Rightarrow> string" where
  "fileContext_of d uid fileIds =
     (case fileIds of
        None \<Rightarrow> []
      | Some ids \<Rightarrow>
          if length ids > 0 then
            (let fs = file_findMany d ids uid
             in if length fs > 0 then
                  newline @ newline @ ''Context: The user has uploaded '' @ show_nat (length fs)
                  @ '' file(s) for reference:'' @ newline
                  @ join newline
                      (map (\<lambda>f. ''- '' @ f_originalName f @ '' ('' @ f_mimeType f @ '')'') fs)
                  @ newline @ newline
                  @ ''Please consider these files when responding to the user's question.''
                else [])
          else [])"

definition conversationHistory ::
  "project \<Rightarrow> message list \<Rightarrow> string \<Rightarrow> string \<Rightarrow> entry list" where
  "conversationHistory p latest fileContext content =
     [\<lparr>e_role = System,
       e_content = or_else (p_systemPrompt p) ''You are a helpful assistant.'' @ fileContext\<rparr>]
     @ map (\<lambda>msg. \<lparr>e_role = m_role msg, e_content = m_content msg\<rparr>) (rev latest)
     @ [\<lparr>e_role = User, e_content = trim content\<rparr>]"

definition responses :: "string \<Rightarrow> string list" where
  "responses content =
     [''I apologize, but I'm currently experiencing connectivity issues with my AI services. However, I can still help you based on my configuration.'',
      ''Based on your question about '' @ dquote @ slice0 30 content @ ''...'' @ dquote
        @ '', I would normally provide a detailed response, but I'm currently in offline mode.'',
      ''Thank you for your message. I'm temporarily unable to access my full AI capabilities, but I'm still here to assist you.'',
      ''I understand you're asking about '' @ dquote @ slice0 20 content @ ''...'' @ dquote
        @ ''. While my AI services are temporarily unavailable, I can provide basic assistance.'']"

text \<open>
  The canned reply of the \<^verbatim>\<open>catch\<close> block. \<open>pick\<close> is the value of
  \<^verbatim>\<open>Math.floor(Math.random() * responses.length)\<close>, which is below 4; an index that is
  not is read as JavaScript reads it, \<^verbatim>\<open>undefined\<close>, which a string sum prints.
\<close>

definition fallback_result :: "nat \<Rightarrow> string \<Rightarrow> project \<Rightarrow> ai_result" where
  "fallback_result pick content p =
     (let fallbackResponse =
            (if pick < length (responses content) then responses content ! pick
             else ''undefined'')
      in \<lparr>r_content =
            fallbackResponse
            @ (if truthy (p_systemPrompt p)
               then newline @ newline @ ''Note: I'm configured as: ''
                    @ slice0 100 (or_else (p_systemPrompt p) []) @ ''...''
               else []),
          r_service = ''Fallback Mode'',
          r_usage = None\<rparr>)"

definition send_message ::
  "env \<Rightarrow> backends \<Rightarrow> nat \<Rightarrow> db \<Rightarrow> send_req \<Rightarrow> send_data reply \<times> db \<times> event list" where
  "send_message e post pick d req =
     (case sm_content req of
        None \<Rightarrow> (Error400 ''Message content is required'', d, [])
      | Some content \<Rightarrow>
          if content = [] \<or> trim content = [] then
            (Error400 ''Message content is required'', d, [])
          else
            (case chat_findFirst d (sm_chatId req) (sm_userId req) of
               None \<Rightarrow> (Error404 ''Chat not found'', d, [])
             | Some (c, p, latest) \<Rightarrow>
                 (let (userMsg, d1) = message_create d (sm_chatId req) User (trim content);
                      fileContext = fileContext_of d1 (sm_userId req) (sm_fileIds req);
                      history = conversationHistory p latest fileContext content;
                      (res, posts) = getAIResponse e post history None;
                      aiResult = (case res of
                                    Inr r \<Rightarrow> r
                                  | Inl err \<Rightarrow> fallback_result pick content p);
                      (assistantMsg, d2) =
                         message_create d1 (sm_chatId req) Assistant (r_content aiResult)
                  in (Json200 \<lparr>userMessage = userMsg, assistantMessage = assistantMsg,
                                meta_service = r_service aiResult,
                                meta_usage = r_usage aiResult\<rparr>,
                      d2,
                      [MessageCreate userMsg]
                      @ map (\<lambda>(s, msgs). BackendPost s msgs) posts
                      @ [MessageCreate assistantMsg]))))"


section \<open>The project routes\<close>

text \<open>The fields a body may carry; \<open>None\<close> is an absent field.\<close>

record project_body =
  b_name :: "string option"
  b_description :: "string option"
  b_systemPrompt :: "string option"

definition create_project ::
  "db \<Rightarrow> ident \<Rightarrow> project_body \<Rightarrow> (ident \<times> project) reply \<times> db" where
  "create_project d uid body =
     (if \<not> truthy (b_name body) \<or> \<not> truthy (b_systemPrompt body) then
        (Error400 ''Name and system prompt are required'', d)
      else
        (let pid = next_id d;
             p = \<lparr>p_userId = uid, p_name = or_else (b_name body) [],
                  p_description = b_description body,
                  p_systemPrompt = b_systemPrompt body\<rparr>
         in (Json201 (pid, p),
             d\<lparr>projects := (projects d)(pid \<mapsto> p), next_id := Suc pid\<rparr>)))"

definition get_project ::
  "db \<Rightarrow> ident \<Rightarrow> ident \<Rightarrow> (ident \<times> project \<times> chat list) reply \<times> db" where
  "get_project d uid pid =
     (case project_findFirst d pid uid of
        None \<Rightarrow> (Error404 ''Project not found'', d)
      | Some p \<Rightarrow>
          (Json200 (pid, p,
             take 10 (rev (sort_key c_createdAt (filter (\<lambda>c. c_projectId c = pid) (chats d))))),
           d))"

definition update_project ::
  "db \<Rightarrow> ident \<Rightarrow> ident \<Rightarrow> project_body \<Rightarrow> (ident \<times> project) reply \<times> db" where
  "update_project d uid pid body =
     (case project_findFirst d pid uid of
        None \<Rightarrow> (Error404 ''Project not found'', d)
      | Some existingProject \<Rightarrow>
          (let p = existingProject
                 \<lparr>p_name := or_else (b_name body) (p_name existingProject),
                  p_description :=
                    (case b_description body of
                       None \<Rightarrow> p_description existingProject
                     | Some t \<Rightarrow> Some t),
                  p_systemPrompt :=
                    (if truthy (b_systemPrompt body) then b_systemPrompt body
                     else p_systemPrompt existingProject)\<rparr>
           in (Json200 (pid, p), d\<lparr>projects := (projects d)(pid \<mapsto> p)\<rparr>)))"

definition delete_project :: "db \<Rightarrow> ident \<Rightarrow> ident \<Rightarrow> unit reply \<times> db" where
  "delete_project d uid pid =
     (case project_findFirst d pid uid of
        None \<Rightarrow> (Error404 ''Project not found'', d)
      | Some existingProject \<Rightarrow> (Json200 (), d\<lparr>projects := (projects d)(pid := None)\<rparr>))"

text \<open>The route that creates a chat under a project.\<close>

definition create_chat :: "db \<Rightarrow> ident \<Rightarrow> ident \<Rightarrow> string option \<Rightarrow> chat reply \<times> db" where
  "create_chat d uid projectId title =
     (case project_findFirst d projectId uid of
        None \<Rightarrow> (Error404 ''Project not found'', d)
      | Some p \<Rightarrow>
          (let c = \<lparr>c_id = next_id d, c_projectId = projectId,
                    c_title = or_else title ''New Chat'', c_createdAt = clock d\<rparr>
           in (Json201 c,
               d\<lparr>chats := chats d @ [c], next_id := Suc (next_id d),
                  clock := Suc (clock d)\<rparr>)))"

section \<open>The upload route\<close>

text \<open>\<^verbatim>\<open>String.prototype.toLowerCase\<close> on the letters A to Z.\<close>

definition lower_of :: "char \<Rightarrow> char" where
  "lower_of c =
     (case map_of (zip ''ABCDEFGHIJKLMNOPQRSTUVWXYZ'' ''abcdefghijklmnopqrstuvwxyz'') c of
        None \<Rightarrow> c
      | Some l \<Rightarrow> l)"

definition toLowerCase :: "string \<Rightarrow> string" where
  "toLowerCase s = map lower_of s"

text \<open>
  \<^verbatim>\<open>path.extname\<close> (POSIX): the text from the last dot of the last path segment to its
  end; empty when that segment has no dot, when its only dot is its first character, or
  when the segment is \<^verbatim>\<open>..\<close>.
\<close>

definition basename :: "string \<Rightarrow> string" where
  "basename path =
     rev (takeWhile (\<lambda>c. c \<noteq> CHR ''/'') (dropWhile (\<lambda>c. c = CHR ''/'') (rev path)))"

definition extname :: "string \<Rightarrow> string" where
  "extname path =
     (let base = basename path;
          tail = rev (takeWhile (\<lambda>c. c \<noteq> CHR ''.'') (rev base))
      in if CHR ''.'' \<notin> set base then []
         else if length tail + 1 = length base then []
         else if base = ''..'' then []
         else CHR ''.'' # tail)"

text \<open>One file part of the multipart request, with the unique suffix that the disk
  storage draws for it (\<^verbatim>\<open>Date.now() + '-' + Math.round(Math.random() * 1E9)\<close>).\<close>

record incoming_file =
  i_fieldname :: string
  i_originalname :: string
  i_mimetype :: string
  i_size :: nat
  i_uniqueSuffix :: string

text \<open>An entry of \<^verbatim>\<open>req.files\<close>.\<close>

record multer_file =
  mf_filename :: string
  mf_originalname :: string
  mf_mimetype :: string
  mf_size :: nat
  mf_path :: string

definition allowedTypes :: "string list" where
  "allowedTypes =
     [''text/plain'', ''text/markdown'', ''application/pdf'', ''application/msword'',
      ''application/vnd.openxmlformats-officedocument.wordprocessingml.document'',
      ''text/csv'', ''application/json'', ''text/javascript'', ''application/javascript'',
      ''text/typescript'', ''text/jsx'', ''text/tsx'', ''text/python'', ''text/html'',
      ''text/css'', ''application/x-python-code'', ''text/x-python'']"

definition allowedExtensions :: "string list" where
  "allowedExtensions =
     [''.txt'', ''.md'', ''.pdf'', ''.doc'', ''.docx'', ''.csv'', ''.json'',
      ''.js'', ''.ts'', ''.tsx'', ''.jsx'', ''.py'', ''.html'', ''.css'']"

text \<open>The \<^verbatim>\<open>fileFilter\<close>: true when it calls back with \<^verbatim>\<open>true\<close>, false when with the
  error.\<close>

definition fileFilter :: "incoming_file \<Rightarrow> bool" where
  "fileFilter file =
     (let fileExtension = toLowerCase (extname (i_originalname file))
      in i_mimetype file \<in> set allowedTypes \<or> fileExtension \<in> set allowedExtensions)"

datatype multer_error = LIMIT_UNEXPECTED_FILE | LIMIT_FILE_SIZE | FilterError string

definition fileSize_limit :: nat where
  "fileSize_limit = 512 * 1024 * 1024"

text \<open>The directory \<^verbatim>\<open>path.join(__dirname, '../uploads')\<close> of the disk storage, under the
  name that the source gives it relative to the routes.\<close>

definition uploadDir :: string where
  "uploadDir = ''../uploads''"

definition disk_store :: "incoming_file \<Rightarrow> multer_file" where
  "disk_store file =
     (let name = i_fieldname file @ ''-'' @ i_uniqueSuffix file @ extname (i_originalname file)
      in \<lparr>mf_filename = name, mf_originalname = i_originalname file,
           mf_mimetype = i_mimetype file, mf_size = i_size file,
           mf_path = uploadDir @ ''/'' @ name\<rparr>)"

text \<open>
  The middleware \<^verbatim>\<open>upload.array('files', 10)\<close>: it takes the file parts in the order of
  the request. A part without a filename is no file: it is passed over, before the count
  and before the filter. A part under another field name, or one more than the count
  allows, is an unexpected file; then the \<^verbatim>\<open>fileFilter\<close> decides, then the size limit.
  The first error ends the request: the route handler does not run.
\<close>

fun multer_files :: "nat \<Rightarrow> incoming_file list \<Rightarrow> multer_error + multer_file list" where
  "multer_files left [] = Inr []"
| "multer_files left (file # rest) =
     (if i_originalname file = [] then multer_files left rest
      else if i_fieldname file \<noteq> ''files'' \<or> left = 0 then Inl LIMIT_UNEXPECTED_FILE
      else if \<not> fileFilter file then
        Inl (FilterError (''File type not supported. Allowed types: ''
                          @ join '', '' allowedExtensions))
      else if i_size file > fileSize_limit then Inl LIMIT_FILE_SIZE
      else (case multer_files (left - 1) rest of
              Inl err \<Rightarrow> Inl err
            | Inr stored \<Rightarrow> Inr (disk_store file # stored)))"

definition upload_array :: "incoming_file list \<Rightarrow> multer_error + multer_file list" where
  "upload_array parts = multer_files 10 parts"

text \<open>
  \<^verbatim>\<open>uploadToOpenAI\<close>: the call throws, or it returns \<^verbatim>\<open>response.data\<close>, of which the
  route reads the \<^verbatim>\<open>id\<close> without a check. \<open>Uploaded (Some i)\<close> is a reply that carries
  the id \<open>i\<close>; \<open>Uploaded None\<close> is a successful reply whose body has no \<^verbatim>\<open>id\<close>, so
  that \<^verbatim>\<open>openaiFile.id\<close> is \<^verbatim>\<open>undefined\<close>. A reply without a body, on which reading
  the \<^verbatim>\<open>id\<close> throws, goes the way of \<open>UploadFailed\<close>.
\<close>

datatype upload_outcome = UploadFailed | Uploaded "string option"

type_synonym remote = "string \<Rightarrow> string \<Rightarrow> upload_outcome"

text \<open>\<^verbatim>\<open>prisma.file.create\<close> of the route, and \<^verbatim>\<open>prisma.file.update\<close> by id.\<close>

definition file_create :: "db \<Rightarrow> ident \<Rightarrow> multer_file \<Rightarrow> file_row \<times> db" where
  "file_create d projectId file =
     (let fileRecord =
            \<lparr>f_id = next_id d, f_filename = mf_filename file,
             f_originalName = mf_originalname file, f_mimeType = mf_mimetype file,
             f_size = mf_size file, f_projectId = projectId, f_openaiFileId = None,
             f_status = Uploading, f_errorMessage = None\<rparr>
      in (fileRecord, d\<lparr>files := files d @ [fileRecord], next_id := Suc (next_id d)\<rparr>))"

definition file_update :: "db \<Rightarrow> ident \<Rightarrow> (file_row \<Rightarrow> file_row) \<Rightarrow> db" where
  "file_update d i upd = d\<lparr>files := map (\<lambda>r. if f_id r = i then upd r else r) (files d)\<rparr>"

text \<open>The data of the two updates. An \<^verbatim>\<open>undefined\<close> value in the data of an update
  leaves the column as it is.\<close>

definition set_processed :: "string option \<Rightarrow> file_row \<Rightarrow> file_row" where
  "set_processed i r =
     r\<lparr>f_openaiFileId := (case i of None \<Rightarrow> f_openaiFileId r | Some x \<Rightarrow> Some x),
       f_status := Processed\<rparr>"

definition set_error :: "file_row \<Rightarrow> file_row" where
  "set_error r = r\<lparr>f_status := Error, f_errorMessage := Some ''Failed to upload to OpenAI''\<rparr>"

text \<open>One turn of the loop over \<^verbatim>\<open>files\<close>: the row written, the entry pushed to
  \<^verbatim>\<open>uploadedFiles\<close>.\<close>

definition process_file :: "remote \<Rightarrow> ident \<Rightarrow> multer_file \<Rightarrow> db \<Rightarrow> file_row \<times> db" where
  "process_file uploadToOpenAI projectId file d =
     (let (fileRecord, d1) = file_create d projectId file
      in case uploadToOpenAI (mf_path file) (mf_originalname file) of
           Uploaded i \<Rightarrow>
             (fileRecord\<lparr>f_openaiFileId := i, f_status := Processed\<rparr>,
              file_update d1 (f_id fileRecord) (set_processed i))
         | UploadFailed \<Rightarrow>
             (set_error fileRecord, file_update d1 (f_id fileRecord) set_error))"

fun process_files ::
  "remote \<Rightarrow> ident \<Rightarrow> multer_file list \<Rightarrow> db \<Rightarrow> file_row list \<Rightarrow> file_row list \<times> db" where
  "process_files uploadToOpenAI projectId [] d uploadedFiles = (uploadedFiles, d)"
| "process_files uploadToOpenAI projectId (file # rest) d uploadedFiles =
     (let (pushed, d') = process_file uploadToOpenAI projectId file d
      in process_files uploadToOpenAI projectId rest d' (uploadedFiles @ [pushed]))"

text \<open>The handler behind the middleware; \<^verbatim>\<open>errors\<close> stays empty, since no operation on
  the store fails.\<close>

definition upload_handler ::
  "remote \<Rightarrow> db \<Rightarrow> ident \<Rightarrow> ident \<Rightarrow> multer_file list
     \<Rightarrow> (file_row list \<times> (string \<times> string) list) reply \<times> db" where
  "upload_handler uploadToOpenAI d uid projectId fs =
     (if length fs = 0 then (Error400 ''No files provided'', d)
      else
        (case project_findFirst d projectId uid of
           None \<Rightarrow> (Error404 ''Project not found'', d)
         | Some project \<Rightarrow>
             (let (uploadedFiles, d') = process_files uploadToOpenAI projectId fs d []
              in (Json200 (uploadedFiles, []), d'))))"

datatype 'a routed = MiddlewareError multer_error | Handled 'a

definition upload_route ::
  "remote \<Rightarrow> db \<Rightarrow> ident \<Rightarrow> ident \<Rightarrow> incoming_file list
     \<Rightarrow> (file_row list \<times> (string \<times> string) list) reply routed \<times> db" where
  "upload_route uploadToOpenAI d uid projectId parts =
     (case upload_array parts of
        Inl err \<Rightarrow> (MiddlewareError err, d)
      | Inr fs \<Rightarrow>
          (let (r, d') = upload_handler uploadToOpenAI d uid projectId fs
           in (Handled r, d')))"

text \<open>
  The route that previews a file: the file with this id under a project of the user; a
  file without an external reference is reported as not processed yet; otherwise the
  content is fetched from the external store by the reference, and a failed fetch is the
  status 500.
\<close>

definition file_content ::
  "(string \<Rightarrow> string option) \<Rightarrow> db \<Rightarrow> ident \<Rightarrow> ident
     \<Rightarrow> (string \<times> string \<times> string) reply" where
  "file_content fetch d uid fileId =
     (case find (\<lambda>f. f_id f = fileId \<and> project_owned d (f_projectId f) uid) (files d) of
        None \<Rightarrow> Error404 ''File not found''
      | Some f \<Rightarrow>
          if \<not> truthy (f_openaiFileId f) then Error400 ''File not processed yet''
          else (case fetch (or_else (f_openaiFileId f) []) of
                  None \<Rightarrow> Error500 ''Failed to retrieve file content''
                | Some content \<Rightarrow> Json200 (content, f_originalName f, f_mimeType f)))"

section \<open>The states the routes reach\<close>

definition empty_db :: db where
  "empty_db = \<lparr>projects = Map.empty, chats = [], messages = [], files = [],
               next_id = 0, clock = 0\<rparr>"

inductive reachable :: "db \<Rightarrow> bool" where
  r_init: "reachable empty_db"
| r_create: "reachable d \<Longrightarrow> reachable (snd (create_project d uid body))"
| r_get: "reachable d \<Longrightarrow> reachable (snd (get_project d uid pid))"
| r_update: "reachable d \<Longrightarrow> reachable (snd (update_project d uid pid body))"
| r_delete: "reachable d \<Longrightarrow> reachable (snd (delete_project d uid pid))"
| r_chat: "reachable d \<Longrightarrow> reachable (snd (create_chat d uid pid title))"
| r_send: "reachable d \<Longrightarrow> reachable (fst (snd (send_message e post pick d req)))"
| r_upload: "reachable d \<Longrightarrow> reachable (snd (upload_route up d uid pid parts))"

section \<open>Notions of the specification\<close>

text \<open>The message text is empty after trimming (an absent text counts as empty).\<close>

definition empty_after_trim :: "string option \<Rightarrow> bool" where
  "empty_after_trim v = (case v of None \<Rightarrow> True | Some s \<Rightarrow> trim s = [])"

text \<open>The chat id resolves to a chat that the user owns through its project.\<close>

definition owns_chat :: "db \<Rightarrow> ident \<Rightarrow> ident \<Rightarrow> bool" where
  "owns_chat d uid chatId =
     (\<exists>c \<in> set (chats d). c_id c = chatId
        \<and> (\<exists>p. projects d (c_projectId c) = Some p \<and> p_userId p = uid))"








text \<open>The backends posted to in a run of the route, in the order of the posts.\<close>

fun posted :: "event list \<Rightarrow> service list" where
  "posted [] = []"
| "posted (MessageCreate m # tr) = posted tr"
| "posted (BackendPost s msgs # tr) = s # posted tr"


text \<open>The fixed order of the backends when no preference is given.\<close>

definition fixed_order :: "env \<Rightarrow> service list" where
  "fixed_order e = filter (configured e) [OPENAI, OPENROUTER]"

text \<open>A project row with the two required fields present and non-empty.\<close>

definition project_valid :: "project \<Rightarrow> bool" where
  "project_valid p = (p_name p \<noteq> [] \<and> truthy (p_systemPrompt p))"

text \<open>A file part that carries a filename; only such a part is a file to the
  middleware.\<close>

definition named :: "incoming_file \<Rightarrow> bool" where
  "named part = (i_originalname part \<noteq> [])"

text \<open>A file part that the filter turns down: neither its MIME type nor its extension
  is among the supported ones.\<close>

definition unsupported :: "incoming_file \<Rightarrow> bool" where
  "unsupported part =
     (i_mimetype part \<notin> set allowedTypes
      \<and> toLowerCase (extname (i_originalname part)) \<notin> set allowedExtensions)"

section \<open>Concrete inputs\<close>

definition env_both :: env where
  "env_both = \<lparr>OPENAI_API_KEY = Some ''sk-a'', OPENROUTER_API_KEY = Some ''sk-b''\<rparr>"

definition post_second :: backends where
  "post_second s msgs = (if s = OPENAI then Replied ''hello'' None else Failed)"

definition db1 :: db where
  "db1 = \<lparr>projects = Map.empty(1 \<mapsto> \<lparr>p_userId = 7, p_name = ''Helper'',
                                        p_description = None,
                                        p_systemPrompt = Some ''Be brief.''\<rparr>),
          chats = [\<lparr>c_id = 2, c_projectId = 1, c_title = ''New Chat'', c_createdAt = 0\<rparr>],
          messages = [], files = [], next_id = 3, clock = 1\<rparr>"

definition req1 :: send_req where
  "req1 = \<lparr>sm_userId = 7, sm_chatId = 2, sm_content = Some '' hi '', sm_fileIds = None\<rparr>"

definition post_fail :: backends where
  "post_fail s msgs = Failed"

definition req_blank :: send_req where
  "req_blank = \<lparr>sm_userId = 7, sm_chatId = 2, sm_content = Some ''   '', sm_fileIds = None\<rparr>"

definition req_stranger :: send_req where
  "req_stranger = \<lparr>sm_userId = 8, sm_chatId = 2, sm_content = Some ''hi'', sm_fileIds = None\<rparr>"

definition req_blank_stranger :: send_req where
  "req_blank_stranger =
     \<lparr>sm_userId = 8, sm_chatId = 2, sm_content = Some ''   '', sm_fileIds = None\<rparr>"

definition body_full :: project_body where
  "body_full = \<lparr>b_name = Some ''Tutor'', b_description = None,
                b_systemPrompt = Some ''You teach.''\<rparr>"

definition body_no_prompt :: project_body where
  "body_no_prompt = \<lparr>b_name = Some ''Tutor'', b_description = None, b_systemPrompt = None\<rparr>"

definition body_rename :: project_body where
  "body_rename = \<lparr>b_name = Some ''Coach'', b_description = Some ''v2'',
                  b_systemPrompt = Some []\<rparr>"

definition tutor :: project where
  "tutor = \<lparr>p_userId = 7, p_name = ''Tutor'', p_description = None,
            p_systemPrompt = Some ''You teach.''\<rparr>"

definition coach :: project where
  "coach = \<lparr>p_userId = 7, p_name = ''Coach'', p_description = Some ''v2'',
            p_systemPrompt = Some ''You teach.''\<rparr>"

definition db_made :: db where
  "db_made = \<lparr>projects = Map.empty(0 \<mapsto> tutor), chats = [], messages = [], files = [],
              next_id = 1, clock = 0\<rparr>"








definition part_exe :: incoming_file where
  "part_exe = \<lparr>i_fieldname = ''files'', i_originalname = ''notes.exe'',
               i_mimetype = ''text/plain'', i_size = 12, i_uniqueSuffix = ''1-2''\<rparr>"

definition part_bin :: incoming_file where
  "part_bin = \<lparr>i_fieldname = ''files'', i_originalname = ''tool.exe'',
               i_mimetype = ''application/octet-stream'', i_size = 12,
               i_uniqueSuffix = ''3-4''\<rparr>"

definition part_txt :: incoming_file where
  "part_txt = \<lparr>i_fieldname = ''files'', i_originalname = ''a.TXT'',
               i_mimetype = ''application/octet-stream'', i_size = 5,
               i_uniqueSuffix = ''5-6''\<rparr>"

definition remote_ok :: remote where
  "remote_ok filePath filename = Uploaded (Some ''file-abc'')"

definition remote_no_id :: remote where
  "remote_no_id filePath filename = Uploaded None"

definition part_nameless :: incoming_file where
  "part_nameless = \<lparr>i_fieldname = ''files'', i_originalname = [],
                    i_mimetype = ''application/octet-stream'', i_size = 0,
                    i_uniqueSuffix = ''7-8''\<rparr>"

definition fetch_none :: "string \<Rightarrow> string option" where
  "fetch_none reference = None"

definition remote_down :: remote where
  "remote_down filePath filename = UploadFailed"

section \<open>Properties of the backend selector\<close>

lemma OPENAI_neq_OPENROUTER: "OPENAI \<noteq> OPENROUTER"
  by (simp add: OPENAI_def OPENROUTER_def)

lemma service_priority_spec: "service_priority e p = spec_order e p"
proof (cases p)
  case None
  then show ?thesis
    using OPENAI_neq_OPENROUTER
    by (simp add: service_priority_def spec_order_def spec_first_def configured_def Let_def)
next
  case (Some q)
  then show ?thesis
    using OPENAI_neq_OPENROUTER
    by (auto simp: service_priority_def spec_order_def spec_first_def configured_def Let_def)
qed

lemma configured_known: "configured e s \<Longrightarrow> s = OPENAI \<or> s = OPENROUTER"
  by (simp add: configured_def split: if_splits)

lemma spec_first_distinct: "distinct (spec_first e p)"
  by (simp add: spec_first_def split: option.splits)

lemma spec_first_configured: "s \<in> set (spec_first e p) \<Longrightarrow> configured e s"
  by (simp add: spec_first_def split: option.splits if_splits)

lemma service_priority_distinct: "distinct (service_priority e p)"
proof -
  let ?rest = "filter (\<lambda>s. configured e s \<and> s \<notin> set (spec_first e p)) [OPENAI, OPENROUTER]"
  have "distinct [OPENAI, OPENROUTER]"
    using OPENAI_neq_OPENROUTER by simp
  then have "distinct ?rest"
    by (rule distinct_filter)
  moreover have "set (spec_first e p) \<inter> set ?rest = {}"
    by (simp only: set_filter) blast
  ultimately show ?thesis
    unfolding service_priority_spec spec_order_def
    using spec_first_distinct [of e p] by (simp only: distinct_append simp_thms)
qed

lemma service_priority_configured: "s \<in> set (service_priority e p) \<Longrightarrow> configured e s"
  unfolding service_priority_spec spec_order_def
  by (simp only: set_append set_filter) (blast dest: spec_first_configured)

lemma service_priority_known:
  "s \<in> set (service_priority e p) \<Longrightarrow> s = OPENAI \<or> s = OPENROUTER"
  by (blast dest: service_priority_configured configured_known)

lemma try_services_attempts:
  "set order \<subseteq> {OPENAI, OPENROUTER} \<Longrightarrow>
   snd (try_services post msgs order)
     = map (\<lambda>s. (s, msgs)) (attempts_of post msgs order)"
proof (induction order)
  case Nil
  then show ?case by (simp add: attempts_of_def)
next
  case (Cons s rest)
  then have IH: "snd (try_services post msgs rest)
                   = map (\<lambda>s. (s, msgs)) (attempts_of post msgs rest)"
    by simp
  from Cons.prems have "s = OPENAI \<or> s = OPENROUTER" by simp
  then show ?case
  proof
    assume s: "s = OPENAI"
    show ?thesis
      using IH by (cases "post OPENAI msgs") (auto simp: s attempts_of_def split: prod.splits)
  next
    assume s: "s = OPENROUTER"
    show ?thesis
      using IH OPENAI_neq_OPENROUTER
      by (cases "post OPENROUTER msgs") (auto simp: s attempts_of_def split: prod.splits)
  qed
qed

lemma getAIResponse_posts:
  "snd (getAIResponse e post msgs p)
     = map (\<lambda>s. (s, msgs)) (attempts_of post msgs (service_priority e p))"
  unfolding getAIResponse_def
  by (rule try_services_attempts) (blast dest: service_priority_known)

lemma getAIResponse_attempts:
  "map fst (snd (getAIResponse e post msgs p))
     = attempts_of post msgs (service_priority e p)"
  by (simp add: getAIResponse_posts comp_def)

lemma attempts_of_subset: "set (attempts_of post msgs order) \<subseteq> set order"
proof -
  have "set (take 1 (dropWhile (\<lambda>s. post s msgs = Failed) order)) \<subseteq> set order"
    by (meson set_take_subset set_dropWhileD subsetI subsetD)
  moreover have "set (takeWhile (\<lambda>s. post s msgs = Failed) order) \<subseteq> set order"
    by (meson set_takeWhileD subsetI)
  ultimately show ?thesis by (simp add: attempts_of_def)
qed

lemma attempts_of_distinct:
  assumes "distinct order"
  shows "distinct (attempts_of post msgs order)"
proof -
  let ?P = "\<lambda>s. post s msgs = Failed"
  let ?tw = "takeWhile ?P order" and ?dw = "dropWhile ?P order"
  from assms have "distinct (?tw @ ?dw)" by simp
  then have d: "distinct ?tw" "distinct ?dw" "set ?tw \<inter> set ?dw = {}"
    by (simp_all only: distinct_append)
  have "set (take 1 ?dw) \<subseteq> set ?dw" by (rule set_take_subset)
  with d(3) have "set ?tw \<inter> set (take 1 ?dw) = {}" by blast
  moreover from d(2) have "distinct (take 1 ?dw)" by (rule distinct_take)
  ultimately show ?thesis
    using d(1) unfolding attempts_of_def by (simp only: distinct_append simp_thms)
qed

lemma getAIResponse_all_failed:
  assumes "\<forall>s \<in> set (service_priority e p). post s msgs = Failed"
  shows "fst (getAIResponse e post msgs p) = Inl AllUnavailable"
proof -
  have "set order \<subseteq> {OPENAI, OPENROUTER} \<Longrightarrow> \<forall>s \<in> set order. post s msgs = Failed \<Longrightarrow>
        fst (try_services post msgs order) = Inl AllUnavailable" for order
  proof (induction order)
    case Nil
    then show ?case by simp
  next
    case (Cons s rest)
    from Cons.prems have "s = OPENAI \<or> s = OPENROUTER" by simp
    moreover from Cons have "fst (try_services post msgs rest) = Inl AllUnavailable"
      by simp
    moreover from Cons.prems have "post s msgs = Failed" by simp
    ultimately show ?case
      using OPENAI_neq_OPENROUTER by (auto split: prod.splits)
  qed
  moreover have "set (service_priority e p) \<subseteq> {OPENAI, OPENROUTER}"
    by (blast dest: service_priority_known)
  ultimately show ?thesis
    using assms unfolding getAIResponse_def by blast
qed

text \<open>
  C3. The backends are tried in the order that the policy describes: the preferred
  backend first when it is given and its credential is configured, then every other
  configured backend, OpenAI before OpenRouter. The posts made are the backends of that
  order up to and including the first one that replies, each posted to at most once, and
  every one of them has its credential configured.
\<close>

theorem selector_order:
  "service_priority e p = spec_order e p
   \<and> map fst (snd (getAIResponse e post msgs p))
       = attempts_of post msgs (spec_order e p)
   \<and> distinct (map fst (snd (getAIResponse e post msgs p)))
   \<and> (\<forall>s \<in> set (map fst (snd (getAIResponse e post msgs p))). configured e s)"
proof -
  let ?tried = "map fst (snd (getAIResponse e post msgs p))"
  have eq: "?tried = attempts_of post msgs (service_priority e p)"
    by (rule getAIResponse_attempts)
  have "distinct ?tried"
    unfolding eq by (rule attempts_of_distinct) (rule service_priority_distinct)
  moreover have "\<forall>s \<in> set ?tried. configured e s"
    unfolding eq using attempts_of_subset [of post msgs "service_priority e p"]
    by (blast dest: service_priority_configured)
  ultimately show ?thesis
    using eq by (simp only: service_priority_spec simp_thms)
qed

theorem selector_order_witness:
  "service_priority env_both (Some OPENROUTER) = [OPENROUTER, OPENAI]
   \<and> map fst (snd (getAIResponse env_both post_second [] (Some OPENROUTER)))
       = [OPENROUTER, OPENAI]
   \<and> configured env_both OPENROUTER \<and> configured env_both OPENAI"
  using selector_order [of env_both "Some OPENROUTER" post_second "[]"]
  by (simp add: spec_order_def spec_first_def configured_def env_both_def post_second_def
      attempts_of_def truthy_def OPENAI_def OPENROUTER_def)

section \<open>Properties of the send-message route\<close>

lemma trim_Nil: "trim [] = []"
  by (simp add: trim_def)

lemma chat_findFirst_None_iff:
  "chat_findFirst d chatId uid = None \<longleftrightarrow> \<not> owns_chat d uid chatId"
proof -
  let ?P = "\<lambda>c. c_id c = chatId \<and> project_owned d (c_projectId c) uid"
  have owned: "project_owned d pid uid \<longleftrightarrow> (\<exists>p. projects d pid = Some p \<and> p_userId p = uid)"
    for pid
    by (cases "projects d pid") (simp_all add: project_owned_def project_findFirst_def)
  show ?thesis
  proof (cases "find ?P (chats d)")
    case None
    then have "\<not> (\<exists>c. c \<in> set (chats d) \<and> ?P c)"
      by (simp add: find_None_iff)
    then have "\<not> owns_chat d uid chatId"
      unfolding owns_chat_def owned [symmetric] by blast
    with None show ?thesis
      by (simp add: chat_findFirst_def)
  next
    case (Some c)
    then have c: "c \<in> set (chats d)" "?P c"
      by (auto simp: find_Some_iff)
    then obtain p where p: "projects d (c_projectId c) = Some p" "p_userId p = uid"
      using owned by blast
    with c have "owns_chat d uid chatId"
      unfolding owns_chat_def by blast
    with Some p show ?thesis
      by (simp add: chat_findFirst_def)
  qed
qed


lemma message_create_tables:
  "projects (snd (message_create d chatId r body)) = projects d"
  "chats (snd (message_create d chatId r body)) = chats d"
  "files (snd (message_create d chatId r body)) = files d"
  "messages (snd (message_create d chatId r body))
     = messages d @ [fst (message_create d chatId r body)]"
  by (simp_all add: message_create_def Let_def)

lemma message_create_row:
  "m_chatId (fst (message_create d chatId r body)) = chatId"
  "m_role (fst (message_create d chatId r body)) = r"
  "m_content (fst (message_create d chatId r body)) = body"
  by (simp_all add: message_create_def Let_def)

lemma fileContext_of_cong:
  "projects d' = projects d \<Longrightarrow> files d' = files d \<Longrightarrow>
   fileContext_of d' uid ids = fileContext_of d uid ids"
proof -
  assume "projects d' = projects d" "files d' = files d"
  then have "file_findMany d' xs uid = file_findMany d xs uid" for xs
    by (simp add: file_findMany_def project_owned_def project_findFirst_def)
  then show ?thesis
    by (cases ids) (simp_all add: fileContext_of_def)
qed

text \<open>The route on a request that passes both checks, step by step.\<close>

lemma send_message_accepted:
  assumes c: "sm_content req = Some content" and t: "trim content \<noteq> []"
    and f: "chat_findFirst d (sm_chatId req) (sm_userId req) = Some (c, p, latest)"
  shows "send_message e post pick d req =
     (let um = fst (message_create d (sm_chatId req) User (trim content));
          d1 = snd (message_create d (sm_chatId req) User (trim content));
          history = conversationHistory p latest
                      (fileContext_of d (sm_userId req) (sm_fileIds req)) content;
          res = getAIResponse e post history None;
          ai = (case fst res of Inr r \<Rightarrow> r | Inl err \<Rightarrow> fallback_result pick content p);
          am = fst (message_create d1 (sm_chatId req) Assistant (r_content ai));
          d2 = snd (message_create d1 (sm_chatId req) Assistant (r_content ai))
      in (Json200 \<lparr>userMessage = um, assistantMessage = am,
                    meta_service = r_service ai, meta_usage = r_usage ai\<rparr>,
          d2,
          MessageCreate um # map (\<lambda>(s, msgs). BackendPost s msgs) (snd res)
            @ [MessageCreate am]))"
proof -
  from t have "content \<noteq> []" using trim_Nil by blast
  moreover have "fileContext_of (snd (message_create d (sm_chatId req) User (trim content)))
                   (sm_userId req) (sm_fileIds req)
                 = fileContext_of d (sm_userId req) (sm_fileIds req)"
    by (rule fileContext_of_cong) (simp_all add: message_create_tables)
  ultimately show ?thesis
    using t by (simp add: send_message_def c f Let_def case_prod_beta cong: sum.case_cong)
qed


lemma not_empty_after_trimD:
  "\<not> empty_after_trim v \<Longrightarrow> \<exists>content. v = Some content \<and> trim content \<noteq> []"
  by (cases v) (simp_all add: empty_after_trim_def)

lemma owns_chatD:
  "owns_chat d uid chatId \<Longrightarrow> \<exists>c p latest. chat_findFirst d chatId uid = Some (c, p, latest)"
  using chat_findFirst_None_iff [of d chatId uid]
  by (cases "chat_findFirst d chatId uid") auto

lemma posted_run:
  "posted (map (\<lambda>(s, msgs). BackendPost s msgs) posts @ tr) = map fst posts @ posted tr"
  by (induction posts) (simp_all add: case_prod_beta)

lemma service_priority_None: "service_priority e None = fixed_order e"
  using OPENAI_neq_OPENROUTER
  by (simp add: service_priority_def fixed_order_def configured_def Let_def)

lemma attempts_of_take: "\<exists>n. attempts_of post msgs order = take n order"
proof -
  let ?P = "\<lambda>s. post s msgs = Failed"
  let ?tw = "takeWhile ?P order" and ?dw = "dropWhile ?P order"
  have split: "order = ?tw @ ?dw" by simp
  show ?thesis
  proof (cases ?dw)
    case Nil
    with split have "attempts_of post msgs order = take (length order) order"
      by (simp add: attempts_of_def)
    then show ?thesis ..
  next
    case (Cons x rest)
    have "take (Suc (length ?tw)) (?tw @ x # rest) = ?tw @ [x]"
      by simp
    with Cons split have "attempts_of post msgs order = take (Suc (length ?tw)) order"
      by (simp add: attempts_of_def)
    then show ?thesis ..
  qed
qed

lemma responses_nonempty: "x \<in> set (responses content) \<Longrightarrow> x \<noteq> []"
  by (auto simp: responses_def)

lemma fallback_nonempty: "r_content (fallback_result pick content p) \<noteq> []"
proof (cases "pick < length (responses content)")
  case True
  then have "responses content ! pick \<in> set (responses content)"
    by (rule nth_mem)
  then have "responses content ! pick \<noteq> []"
    by (rule responses_nonempty)
  with True show ?thesis
    by (simp add: fallback_result_def Let_def)
next
  case False
  then show ?thesis
    by (simp add: fallback_result_def Let_def)
qed

lemma fallback_label:
  "r_service (fallback_result pick content p) = ''Fallback Mode''"
  "r_usage (fallback_result pick content p) = None"
  by (simp_all add: fallback_result_def Let_def)

lemma req1_valid: "\<not> empty_after_trim (sm_content req1)"
  by (simp add: empty_after_trim_def req1_def trim_def isWhiteSpace_def)

lemma req1_owns: "owns_chat db1 (sm_userId req1) (sm_chatId req1)"
  by (simp add: owns_chat_def db1_def req1_def)

text \<open>
  C1. A request whose text is not empty after trimming, on a chat that the user owns,
  is answered with status 200; the run writes the user's message row, then makes the
  posts to the backends, then writes the assistant's message row, and makes no other
  write: the messages table grows by exactly these two rows, in this order, whatever
  the backends answer.
\<close>

theorem send_message_writes:
  assumes valid: "\<not> empty_after_trim (sm_content req)"
    and owns: "owns_chat d (sm_userId req) (sm_chatId req)"
  shows "\<exists>data d' um posts am.
           send_message e post pick d req
             = (Json200 data, d',
                MessageCreate um # map (\<lambda>(s, msgs). BackendPost s msgs) posts
                  @ [MessageCreate am])
           \<and> userMessage data = um \<and> assistantMessage data = am
           \<and> messages d' = messages d @ [um, am]
           \<and> m_role um = User \<and> m_chatId um = sm_chatId req
           \<and> m_role am = Assistant \<and> m_chatId am = sm_chatId req
           \<and> projects d' = projects d \<and> chats d' = chats d \<and> files d' = files d"
proof -
  from valid obtain content where c: "sm_content req = Some content" "trim content \<noteq> []"
    using not_empty_after_trimD by blast
  from owns obtain c p latest
    where f: "chat_findFirst d (sm_chatId req) (sm_userId req) = Some (c, p, latest)"
    using owns_chatD by blast
  define um where "um = fst (message_create d (sm_chatId req) User (trim content))"
  define d1 where "d1 = snd (message_create d (sm_chatId req) User (trim content))"
  define res where "res = getAIResponse e post
      (conversationHistory p latest (fileContext_of d (sm_userId req) (sm_fileIds req)) content)
      None"
  define ai where
    "ai = (case fst res of Inr r \<Rightarrow> r | Inl err \<Rightarrow> fallback_result pick content p)"
  define am where "am = fst (message_create d1 (sm_chatId req) Assistant (r_content ai))"
  define d2 where "d2 = snd (message_create d1 (sm_chatId req) Assistant (r_content ai))"
  define data where "data = \<lparr>userMessage = um, assistantMessage = am,
                              meta_service = r_service ai, meta_usage = r_usage ai\<rparr>"
  have eq: "send_message e post pick d req
              = (Json200 data, d2,
                 MessageCreate um # map (\<lambda>(s, msgs). BackendPost s msgs) (snd res)
                   @ [MessageCreate am])"
    unfolding send_message_accepted [OF c f] Let_def
    by (simp only: um_def d1_def res_def ai_def am_def d2_def data_def)
  have "messages d2 = messages d @ [um, am]"
    by (simp add: d2_def am_def d1_def um_def message_create_tables)
  moreover have "projects d2 = projects d" "chats d2 = chats d" "files d2 = files d"
    by (simp_all add: d2_def d1_def message_create_tables)
  moreover have "m_role um = User" "m_chatId um = sm_chatId req"
                "m_role am = Assistant" "m_chatId am = sm_chatId req"
    by (simp_all add: um_def am_def message_create_row)
  moreover have "userMessage data = um" "assistantMessage data = am"
    by (simp_all add: data_def)
  ultimately show ?thesis
    using eq by blast
qed

theorem send_message_writes_witness:
  "\<exists>data d' um posts am.
     send_message env_both post_second 0 db1 req1
       = (Json200 data, d',
          MessageCreate um # map (\<lambda>(s, msgs). BackendPost s msgs) posts
            @ [MessageCreate am])
     \<and> userMessage data = um \<and> assistantMessage data = am
     \<and> messages d' = messages db1 @ [um, am]
     \<and> m_role um = User \<and> m_chatId um = sm_chatId req1
     \<and> m_role am = Assistant \<and> m_chatId am = sm_chatId req1
     \<and> projects d' = projects db1 \<and> chats d' = chats db1 \<and> files d' = files db1"
  by (rule send_message_writes [OF req1_valid req1_owns])

lemma send_message_invalid:
  assumes "empty_after_trim (sm_content req)"
  shows "send_message e post pick d req = (Error400 ''Message content is required'', d, [])"
  using assms by (cases "sm_content req") (simp_all add: empty_after_trim_def send_message_def)

lemma send_message_unowned:
  assumes valid: "\<not> empty_after_trim (sm_content req)"
    and stranger: "\<not> owns_chat d (sm_userId req) (sm_chatId req)"
  shows "send_message e post pick d req = (Error404 ''Chat not found'', d, [])"
proof -
  from valid obtain content where c: "sm_content req = Some content" "trim content \<noteq> []"
    using not_empty_after_trimD by blast
  then have "content \<noteq> []" using trim_Nil by blast
  moreover from stranger have "chat_findFirst d (sm_chatId req) (sm_userId req) = None"
    by (simp add: chat_findFirst_None_iff)
  ultimately show ?thesis
    using c by (simp add: send_message_def)
qed

lemma send_message_down:
  assumes valid: "\<not> empty_after_trim (sm_content req)"
    and owns: "owns_chat d (sm_userId req) (sm_chatId req)"
    and down: "\<forall>s. configured e s \<longrightarrow> (\<forall>msgs. post s msgs = Failed)"
  shows "\<exists>data d' tr.
           send_message e post pick d req = (Json200 data, d', tr)
           \<and> m_role (assistantMessage data) = Assistant
           \<and> m_content (assistantMessage data) \<noteq> []
           \<and> meta_service data = ''Fallback Mode''
           \<and> meta_usage data = None"
proof -
  from valid obtain content where c: "sm_content req = Some content" "trim content \<noteq> []"
    using not_empty_after_trimD by blast
  from owns obtain c p latest
    where f: "chat_findFirst d (sm_chatId req) (sm_userId req) = Some (c, p, latest)"
    using owns_chatD by blast
  define history where "history =
    conversationHistory p latest (fileContext_of d (sm_userId req) (sm_fileIds req)) content"
  from down have "\<forall>s \<in> set (service_priority e None). post s history = Failed"
    by (blast dest: service_priority_configured)
  then have failed: "fst (getAIResponse e post history None) = Inl AllUnavailable"
    by (rule getAIResponse_all_failed)
  show ?thesis
    unfolding send_message_accepted [OF c f] Let_def
    using failed
    by (simp add: history_def [symmetric] message_create_row fallback_nonempty fallback_label)
qed

text \<open>
  C8 (as amended). The text is checked before the chat is looked up. A request whose text
  is missing or empty after trimming is answered with the validation error (status 400),
  whether or not the chat id resolves; a request whose text is not empty after trimming,
  on a chat id that does not resolve to a chat of a project of the user, is answered with
  the not-found error (status 404). In both cases the store is left as it was and nothing
  is written or posted.
\<close>

theorem send_message_rejects:
  "(empty_after_trim (sm_content req) \<longrightarrow>
      send_message e post pick d req = (Error400 ''Message content is required'', d, []))
   \<and> (\<not> empty_after_trim (sm_content req)
        \<and> \<not> owns_chat d (sm_userId req) (sm_chatId req) \<longrightarrow>
      send_message e post pick d req = (Error404 ''Chat not found'', d, []))"
  using send_message_invalid [of req e post pick d] send_message_unowned [of req d e post pick]
  by blast

theorem send_message_rejects_witness:
  "empty_after_trim (sm_content req_blank)
   \<and> send_message env_both post_second 0 db1 req_blank
       = (Error400 ''Message content is required'', db1, [])
   \<and> \<not> empty_after_trim (sm_content req_stranger)
   \<and> \<not> owns_chat db1 (sm_userId req_stranger) (sm_chatId req_stranger)
   \<and> send_message env_both post_second 0 db1 req_stranger
       = (Error404 ''Chat not found'', db1, [])"
proof -
  have blank: "empty_after_trim (sm_content req_blank)"
    by (simp add: empty_after_trim_def req_blank_def trim_def isWhiteSpace_def)
  have nonblank: "\<not> empty_after_trim (sm_content req_stranger)"
    by (simp add: empty_after_trim_def req_stranger_def trim_def isWhiteSpace_def)
  have stranger: "\<not> owns_chat db1 (sm_userId req_stranger) (sm_chatId req_stranger)"
    by (simp add: owns_chat_def db1_def req_stranger_def)
  show ?thesis
    using send_message_rejects [of req_blank env_both post_second 0 db1]
      send_message_rejects [of req_stranger env_both post_second 0 db1]
      blank nonblank stranger
    by simp
qed

theorem blank_text_foreign_chat_counterexample:
  "\<not> owns_chat db1 (sm_userId req_blank_stranger) (sm_chatId req_blank_stranger)
   \<and> send_message env_both post_second 0 db1 req_blank_stranger
       = (Error400 ''Message content is required'', db1, [])
   \<and> fst (send_message env_both post_second 0 db1 req_blank_stranger)
       \<noteq> Error404 ''Chat not found''"
proof -
  have stranger: "\<not> owns_chat db1 (sm_userId req_blank_stranger) (sm_chatId req_blank_stranger)"
    by (simp add: owns_chat_def db1_def req_blank_stranger_def)
  have "empty_after_trim (sm_content req_blank_stranger)"
    by (simp add: empty_after_trim_def req_blank_stranger_def trim_def isWhiteSpace_def)
  then have "send_message env_both post_second 0 db1 req_blank_stranger
               = (Error400 ''Message content is required'', db1, [])"
    by (rule send_message_invalid)
  with stranger show ?thesis
    by simp
qed

text \<open>
  C2 (as amended). When every configured backend fails, or none is configured, a request
  that passes both checks is still answered with status 200; the assistant's message is
  the canned reply, which is not empty; the label in the metadata, returned under
  \<^verbatim>\<open>metadata.service\<close>, is \<^verbatim>\<open>Fallback Mode\<close> and the usage is null.
\<close>

theorem send_message_fallback:
  assumes valid: "\<not> empty_after_trim (sm_content req)"
    and owns: "owns_chat d (sm_userId req) (sm_chatId req)"
    and down: "\<forall>s. configured e s \<longrightarrow> (\<forall>msgs. post s msgs = Failed)"
  shows "\<exists>data d' tr.
           send_message e post pick d req = (Json200 data, d', tr)
           \<and> m_role (assistantMessage data) = Assistant
           \<and> m_content (assistantMessage data) \<noteq> []
           \<and> meta_service data = ''Fallback Mode''
           \<and> meta_usage data = None"
  using assms by (rule send_message_down)

theorem send_message_fallback_witness:
  "\<exists>data d' tr.
     send_message env_both post_fail 1 db1 req1 = (Json200 data, d', tr)
     \<and> m_role (assistantMessage data) = Assistant
     \<and> m_content (assistantMessage data) \<noteq> []
     \<and> meta_service data = ''Fallback Mode''
     \<and> meta_usage data = None"
proof (rule send_message_fallback [OF req1_valid req1_owns])
  show "\<forall>s. configured env_both s \<longrightarrow> (\<forall>msgs. post_fail s msgs = Failed)"
    by (simp add: post_fail_def)
qed

theorem fallback_label_counterexample:
  "(\<forall>s msgs. post_fail s msgs = Failed)
   \<and> (case fst (send_message env_both post_fail 1 db1 req1) of
        Json200 data \<Rightarrow> meta_service data = ''Fallback Mode''
                        \<and> meta_service data \<noteq> ''fallback''
      | _ \<Rightarrow> False)"
proof -
  have down: "\<forall>s. configured env_both s \<longrightarrow> (\<forall>msgs. post_fail s msgs = Failed)"
    by (simp add: post_fail_def)
  from send_message_down [OF req1_valid req1_owns down, of 1]
  obtain data d' tr where "send_message env_both post_fail 1 db1 req1 = (Json200 data, d', tr)"
    "meta_service data = ''Fallback Mode''"
    by blast
  then show ?thesis
    by (simp add: post_fail_def)
qed

text \<open>
  C10. The route calls the selector without a preference, so the order is the fixed one,
  OpenAI before OpenRouter, each only if its credential is configured. Whatever the
  request carries, the backends posted to are the first few of that order: none when the
  request is rejected, and otherwise those up to and including the first one that
  replies to the conversation.
\<close>

theorem rest_route_order:
  "service_priority e None = fixed_order e
   \<and> (\<exists>n. posted (snd (snd (send_message e post pick d req))) = take n (fixed_order e))
   \<and> (snd (snd (send_message e post pick d req)) = []
      \<or> (\<exists>history. posted (snd (snd (send_message e post pick d req)))
                      = attempts_of post history (fixed_order e)))"
proof -
  let ?tr = "snd (snd (send_message e post pick d req))"
  have "?tr = [] \<or> (\<exists>history. posted ?tr = attempts_of post history (fixed_order e))"
  proof (cases "empty_after_trim (sm_content req)
                \<or> \<not> owns_chat d (sm_userId req) (sm_chatId req)")
    case True
    then have "send_message e post pick d req = (Error400 ''Message content is required'', d, [])
               \<or> send_message e post pick d req = (Error404 ''Chat not found'', d, [])"
      using send_message_invalid [of req e post pick d]
        send_message_unowned [of req d e post pick] by blast
    then have "?tr = []"
      by auto
    then show ?thesis ..
  next
    case False
    then obtain content where c: "sm_content req = Some content" "trim content \<noteq> []"
      using not_empty_after_trimD by blast
    from False obtain c p latest
      where f: "chat_findFirst d (sm_chatId req) (sm_userId req) = Some (c, p, latest)"
      using owns_chatD by blast
    define history where "history =
      conversationHistory p latest (fileContext_of d (sm_userId req) (sm_fileIds req)) content"
    have "posted ?tr = map fst (snd (getAIResponse e post history None))"
      unfolding send_message_accepted [OF c f] Let_def
      by (simp add: history_def [symmetric] posted_run)
    then have "posted ?tr = attempts_of post history (fixed_order e)"
      by (simp only: getAIResponse_attempts service_priority_None)
    then show ?thesis by blast
  qed
  moreover have "posted [] = take 0 (fixed_order e)" by simp
  ultimately have "\<exists>n. posted ?tr = take n (fixed_order e)"
    using attempts_of_take by metis
  with \<open>?tr = [] \<or> _\<close> show ?thesis
    by (simp only: service_priority_None simp_thms)
qed

theorem rest_route_order_witness:
  "fixed_order env_both = [OPENAI, OPENROUTER]
   \<and> posted (snd (snd (send_message env_both post_fail 1 db1 req1))) = [OPENAI, OPENROUTER]
   \<and> posted (snd (snd (send_message env_both post_second 1 db1 req1))) = [OPENAI]
   \<and> posted (snd (snd (send_message env_both post_second 1 db1 req_blank))) = []"
  using rest_route_order [of env_both post_fail 1 db1 req1]
  by (simp add: fixed_order_def configured_def env_both_def truthy_def OPENAI_def
      OPENROUTER_def send_message_def req1_def req_blank_def db1_def trim_def isWhiteSpace_def
      chat_findFirst_def project_owned_def project_findFirst_def latest_messages_def
      chat_messages_def message_create_def Let_def getAIResponse_def service_priority_def
      post_fail_def post_second_def conversationHistory_def fileContext_of_def)

section \<open>Properties of the project routes\<close>

lemma project_findFirst_foreign:
  assumes "projects d pid = Some p" and "p_userId p \<noteq> uid"
  shows "project_findFirst d pid uid = None"
  using assms by (simp add: project_findFirst_def)

lemma project_findFirst_SomeD:
  "project_findFirst d pid uid = Some p \<Longrightarrow> projects d pid = Some p \<and> p_userId p = uid"
  by (cases "projects d pid") (simp_all add: project_findFirst_def split: if_splits)

text \<open>
  C5. When a project belongs to one user, the get, update and delete requests of any
  other user on its id are answered with the not-found error (status 404), which carries
  no data of the project, and they leave the store, and so the project, as it was.
\<close>

theorem foreign_project_not_found:
  assumes "projects d pid = Some p" and "p_userId p = a" and "b \<noteq> a"
  shows "get_project d b pid = (Error404 ''Project not found'', d)
         \<and> update_project d b pid body = (Error404 ''Project not found'', d)
         \<and> delete_project d b pid = (Error404 ''Project not found'', d)"
proof -
  from assms have "project_findFirst d pid b = None"
    by (intro project_findFirst_foreign) auto
  then show ?thesis
    by (simp add: get_project_def update_project_def delete_project_def)
qed

theorem foreign_project_not_found_witness:
  "projects db1 1 \<noteq> None
   \<and> get_project db1 8 1 = (Error404 ''Project not found'', db1)
   \<and> update_project db1 8 1 body_rename = (Error404 ''Project not found'', db1)
   \<and> delete_project db1 8 1 = (Error404 ''Project not found'', db1)"
proof -
  have "projects db1 1 = Some \<lparr>p_userId = 7, p_name = ''Helper'', p_description = None,
                                p_systemPrompt = Some ''Be brief.''\<rparr>"
    by (simp add: db1_def)
  from foreign_project_not_found [OF this, of 7 8 body_rename]
  show ?thesis by (simp add: db1_def)
qed

lemma create_project_rejects:
  assumes "\<not> truthy (b_name body) \<or> \<not> truthy (b_systemPrompt body)"
  shows "create_project d uid body = (Error400 ''Name and system prompt are required'', d)"
  using assms by (auto simp: create_project_def)

lemma create_project_accepts:
  assumes "truthy (b_name body)" and "truthy (b_systemPrompt body)"
  shows "\<exists>p. create_project d uid body
               = (Json201 (next_id d, p),
                  d\<lparr>projects := (projects d)(next_id d \<mapsto> p), next_id := Suc (next_id d)\<rparr>)
             \<and> b_name body = Some (p_name p) \<and> p_systemPrompt p = b_systemPrompt body
             \<and> p_userId p = uid \<and> project_valid p"
  using assms
  by (cases "b_name body")
     (simp_all add: create_project_def Let_def truthy_def or_else_def project_valid_def)

lemma or_else_nonempty: "d \<noteq> [] \<Longrightarrow> or_else v d \<noteq> []"
  by (cases v) (simp_all add: or_else_def)

lemma update_project_valid:
  assumes "project_findFirst d pid uid = Some existing" and "project_valid existing"
  shows "\<exists>p. update_project d uid pid body
               = (Json200 (pid, p), d\<lparr>projects := (projects d)(pid \<mapsto> p)\<rparr>)
             \<and> project_valid p \<and> p_userId p = p_userId existing"
  using assms
  by (simp add: update_project_def Let_def project_valid_def or_else_nonempty)

lemma process_file_projects:
  "projects (snd (process_file up pid file d)) = projects d"
  by (cases "up (mf_path file) (mf_originalname file)")
     (simp_all add: process_file_def file_create_def file_update_def Let_def)

lemma process_files_projects:
  "projects (snd (process_files up pid fs d acc)) = projects d"
proof (induction fs arbitrary: d acc)
  case Nil
  then show ?case by simp
next
  case (Cons f rest)
  then show ?case
    using process_file_projects [of up pid f d]
    by (simp add: case_prod_beta)
qed

lemma upload_route_projects:
  "projects (snd (upload_route up d uid pid parts)) = projects d"
proof (cases "upload_array parts")
  case (Inl err)
  then show ?thesis by (simp add: upload_route_def)
next
  case (Inr fs)
  have "projects (snd (upload_handler up d uid pid fs)) = projects d"
    by (cases "project_findFirst d pid uid")
       (simp_all add: upload_handler_def case_prod_beta process_files_projects)
  with Inr show ?thesis
    by (simp add: upload_route_def case_prod_beta)
qed

lemma send_message_projects:
  "projects (fst (snd (send_message e post pick d req))) = projects d"
proof (cases "empty_after_trim (sm_content req)")
  case True
  then show ?thesis by (simp add: send_message_invalid)
next
  case valid: False
  show ?thesis
  proof (cases "owns_chat d (sm_userId req) (sm_chatId req)")
    case False
    with valid show ?thesis by (simp add: send_message_unowned)
  next
    case True
    from valid obtain content where c: "sm_content req = Some content" "trim content \<noteq> []"
      using not_empty_after_trimD by blast
    from True obtain c p latest
      where f: "chat_findFirst d (sm_chatId req) (sm_userId req) = Some (c, p, latest)"
      using owns_chatD by blast
    show ?thesis
      unfolding send_message_accepted [OF c f] Let_def
      by (simp add: message_create_tables)
  qed
qed

lemma reachable_projects_valid:
  "reachable d \<Longrightarrow> projects d pid = Some p \<Longrightarrow> project_valid p"
proof (induction arbitrary: pid p rule: reachable.induct)
  case r_init
  then show ?case by (simp add: empty_db_def)
next
  case (r_create d uid body)
  show ?case
  proof (cases "truthy (b_name body) \<and> truthy (b_systemPrompt body)")
    case True
    then obtain q where "create_project d uid body
        = (Json201 (next_id d, q),
           d\<lparr>projects := (projects d)(next_id d \<mapsto> q), next_id := Suc (next_id d)\<rparr>)"
      "project_valid q"
      using create_project_accepts [of body d uid] by blast
    with r_create show ?thesis
      by (cases "pid = next_id d") simp_all
  next
    case False
    then have "create_project d uid body = (Error400 ''Name and system prompt are required'', d)"
      by (intro create_project_rejects) blast
    with r_create show ?thesis by simp
  qed
next
  case (r_get d uid pid')
  then show ?case
    by (cases "project_findFirst d pid' uid") (simp_all add: get_project_def)
next
  case (r_update d uid pid' body)
  show ?case
  proof (cases "project_findFirst d pid' uid")
    case None
    with r_update show ?thesis by (simp add: update_project_def)
  next
    case (Some existing)
    then have "project_valid existing"
      using r_update.IH project_findFirst_SomeD by blast
    with Some obtain q where "update_project d uid pid' body
        = (Json200 (pid', q), d\<lparr>projects := (projects d)(pid' \<mapsto> q)\<rparr>)" "project_valid q"
      using update_project_valid by blast
    with r_update show ?thesis
      by (cases "pid = pid'") simp_all
  qed
next
  case (r_delete d uid pid')
  then show ?case
    by (cases "project_findFirst d pid' uid")
       (simp_all add: delete_project_def split: if_splits)
next
  case (r_chat d uid pid' title)
  then show ?case
    by (cases "project_findFirst d pid' uid") (simp_all add: create_chat_def Let_def)
next
  case (r_send d e post pick req)
  then show ?case by (simp add: send_message_projects)
next
  case (r_upload d up uid pid' parts)
  then show ?case by (simp add: upload_route_projects)
qed

text \<open>
  C9. A project that the create route accepts has a name and a system prompt that are
  present and not empty, and a create request that lacks either is answered with the
  validation error (status 400) and stores nothing. In every state that the routes reach,
  every stored project has both fields present and not empty, and so has every project
  that the update route returns.
\<close>

theorem project_fields_required:
  "(\<forall>pid p d'. create_project d uid body = (Json201 (pid, p), d') \<longrightarrow>
       project_valid p \<and> projects d' pid = Some p)
   \<and> (\<not> truthy (b_name body) \<or> \<not> truthy (b_systemPrompt body) \<longrightarrow>
       create_project d uid body = (Error400 ''Name and system prompt are required'', d))
   \<and> (reachable d \<longrightarrow>
        (\<forall>pid p. projects d pid = Some p \<longrightarrow> project_valid p)
        \<and> (\<forall>pid p d'. update_project d uid pid body = (Json200 (pid, p), d') \<longrightarrow>
              project_valid p \<and> projects d' pid = Some p))"
proof (intro conjI allI impI)
  fix pid p d'
  assume ok: "create_project d uid body = (Json201 (pid, p), d')"
  then have "truthy (b_name body) \<and> truthy (b_systemPrompt body)"
    using create_project_rejects [of body d uid] by auto
  then obtain q where "create_project d uid body
      = (Json201 (next_id d, q),
         d\<lparr>projects := (projects d)(next_id d \<mapsto> q), next_id := Suc (next_id d)\<rparr>)"
    "project_valid q"
    using create_project_accepts [of body d uid] by blast
  with ok show "project_valid p" "projects d' pid = Some p"
    by auto
next
  assume "\<not> truthy (b_name body) \<or> \<not> truthy (b_systemPrompt body)"
  then show "create_project d uid body = (Error400 ''Name and system prompt are required'', d)"
    by (rule create_project_rejects)
next
  fix pid p
  assume "reachable d" "projects d pid = Some p"
  then show "project_valid p" by (rule reachable_projects_valid)
next
  fix pid p d'
  assume r: "reachable d" and ok: "update_project d uid pid body = (Json200 (pid, p), d')"
  then obtain existing where e: "project_findFirst d pid uid = Some existing"
    by (cases "project_findFirst d pid uid") (simp_all add: update_project_def)
  with r have "project_valid existing"
    using reachable_projects_valid project_findFirst_SomeD by blast
  with e obtain q where "update_project d uid pid body
      = (Json200 (pid, q), d\<lparr>projects := (projects d)(pid \<mapsto> q)\<rparr>)" "project_valid q"
    using update_project_valid by blast
  with ok show "project_valid p" "projects d' pid = Some p"
    by auto
qed

theorem project_fields_required_witness:
  "create_project empty_db 7 body_no_prompt
     = (Error400 ''Name and system prompt are required'', empty_db)
   \<and> create_project empty_db 7 body_full = (Json201 (0, tutor), db_made)
   \<and> project_valid tutor \<and> projects db_made 0 = Some tutor
   \<and> reachable db_made
   \<and> update_project db_made 7 0 body_rename
       = (Json200 (0, coach), db_made\<lparr>projects := (projects db_made)(0 \<mapsto> coach)\<rparr>)
   \<and> project_valid coach"
proof -
  have made: "create_project empty_db 7 body_full = (Json201 (0, tutor), db_made)"
    by (simp add: create_project_def body_full_def empty_db_def db_made_def tutor_def
        truthy_def or_else_def Let_def)
  have "reachable (snd (create_project empty_db 7 body_full))"
    by (intro reachable.intros)
  with made have r: "reachable db_made"
    by simp
  have upd: "update_project db_made 7 0 body_rename
               = (Json200 (0, coach), db_made\<lparr>projects := (projects db_made)(0 \<mapsto> coach)\<rparr>)"
    by (simp add: update_project_def project_findFirst_def db_made_def tutor_def coach_def
        body_rename_def truthy_def or_else_def Let_def)
  have lacking: "\<not> truthy (b_name body_no_prompt) \<or> \<not> truthy (b_systemPrompt body_no_prompt)"
    by (simp add: body_no_prompt_def truthy_def)
  show ?thesis
    using project_fields_required [of empty_db 7 body_full]
      project_fields_required [of empty_db 7 body_no_prompt]
      project_fields_required [of db_made 7 body_rename]
      made r upd lacking
    by simp
qed

section \<open>The conversation sent to a backend\<close>




















section \<open>Properties of the upload middleware\<close>

lemma fileFilter_iff: "fileFilter part \<longleftrightarrow> \<not> unsupported part"
  by (simp add: fileFilter_def unsupported_def Let_def)

lemma multer_files_unsupported:
  "\<exists>part \<in> set parts. named part \<and> unsupported part \<Longrightarrow>
   \<exists>err. multer_files left parts = Inl err"
proof (induction parts arbitrary: left)
  case Nil
  then show ?case by simp
next
  case (Cons part rest)
  show ?case
  proof (cases "named part \<and> unsupported part")
    case True
    then show ?thesis by (simp add: fileFilter_iff named_def)
  next
    case False
    with Cons.prems have "\<exists>part \<in> set rest. named part \<and> unsupported part" by auto
    then have "\<exists>err. multer_files left rest = Inl err"
      "\<exists>err. multer_files (left - 1) rest = Inl err"
      using Cons.IH by blast+
    then show ?thesis by auto
  qed
qed

lemma multer_files_too_many:
  "left < length (filter named parts) \<Longrightarrow> \<exists>err. multer_files left parts = Inl err"
proof (induction parts arbitrary: left)
  case Nil
  then show ?case by simp
next
  case (Cons part rest)
  show ?case
  proof (cases "named part")
    case False
    with Cons.prems have "left < length (filter named rest)" by simp
    then have "\<exists>err. multer_files left rest = Inl err"
      using Cons.IH by blast
    with False show ?thesis by (simp add: named_def)
  next
    case True
    show ?thesis
    proof (cases left)
      case 0
      with True show ?thesis by (simp add: named_def)
    next
      case (Suc n)
      with Cons.prems True have "left - 1 < length (filter named rest)" by simp
      then obtain err where "multer_files (left - 1) rest = Inl err"
        using Cons.IH by blast
      with True show ?thesis by (simp add: named_def)
    qed
  qed
qed

lemma upload_route_rejected:
  "upload_array parts = Inl err \<Longrightarrow> upload_route up d uid pid parts = (MiddlewareError err, d)"
  by (simp add: upload_route_def)


lemma process_files_length:
  "length (files (snd (process_files up pid fs d acc))) = length (files d) + length fs"
proof (induction fs arbitrary: d acc)
  case Nil
  then show ?case by simp
next
  case (Cons f rest)
  have "length (files (snd (process_file up pid f d))) = Suc (length (files d))"
    by (cases "up (mf_path f) (mf_originalname f)")
       (simp_all add: process_file_def file_create_def file_update_def Let_def)
  with Cons.IH show ?case
    by (simp add: case_prod_beta)
qed

text \<open>
  C7 (as amended). A file, that is a file part with a filename, whose MIME type is not
  among the supported types and whose extension is not among the supported extensions
  makes the middleware end the request with an error: the handler does not run and the
  store is left as it was, so no row is created, for this file or for any other of the
  request. A request with more than ten files ends in the same way. The filter lets a
  file pass when its MIME type or its extension is supported.
\<close>

theorem upload_rejected_early:
  "((\<exists>part \<in> set parts. named part \<and> unsupported part) \<or> length (filter named parts) > 10
      \<longrightarrow> (\<exists>err. upload_route up d uid pid parts = (MiddlewareError err, d)))
   \<and> (\<forall>part. fileFilter part \<longleftrightarrow>
         (i_mimetype part \<in> set allowedTypes
          \<or> toLowerCase (extname (i_originalname part)) \<in> set allowedExtensions))"
proof (intro conjI impI allI)
  assume "(\<exists>part \<in> set parts. named part \<and> unsupported part)
          \<or> length (filter named parts) > 10"
  then have "\<exists>err. upload_array parts = Inl err"
    unfolding upload_array_def
    using multer_files_unsupported [of parts 10] multer_files_too_many [of 10 parts]
    by blast
  then show "\<exists>err. upload_route up d uid pid parts = (MiddlewareError err, d)"
    using upload_route_rejected by blast
next
  fix part
  show "fileFilter part \<longleftrightarrow>
          (i_mimetype part \<in> set allowedTypes
           \<or> toLowerCase (extname (i_originalname part)) \<in> set allowedExtensions)"
    by (simp add: fileFilter_def Let_def)
qed

theorem upload_rejected_early_witness:
  "named part_bin \<and> unsupported part_bin
   \<and> (\<exists>err. upload_route remote_ok db1 7 1 [part_txt, part_bin] = (MiddlewareError err, db1))
   \<and> length (filter named (replicate 11 part_txt)) = 11
   \<and> (\<exists>err. upload_route remote_ok db1 7 1 (replicate 11 part_txt) = (MiddlewareError err, db1))
   \<and> upload_array [part_txt, part_nameless] = Inr [disk_store part_txt]"
proof -
  have bin: "named part_bin \<and> unsupported part_bin"
    by (simp add: named_def unsupported_def part_bin_def allowedTypes_def allowedExtensions_def
        extname_def basename_def toLowerCase_def lower_of_def)
  then have "\<exists>part \<in> set [part_txt, part_bin]. named part \<and> unsupported part"
    by simp
  with upload_rejected_early [of "[part_txt, part_bin]" remote_ok db1 7 1]
  have one: "\<exists>err. upload_route remote_ok db1 7 1 [part_txt, part_bin] = (MiddlewareError err, db1)"
    by blast
  have "named part_txt"
    by (simp add: named_def part_txt_def)
  then have many: "length (filter named (replicate 11 part_txt)) = 11"
    by simp
  with upload_rejected_early [of "replicate 11 part_txt" remote_ok db1 7 1]
  have eleven: "\<exists>err. upload_route remote_ok db1 7 1 (replicate 11 part_txt)
                       = (MiddlewareError err, db1)"
    by simp
  have pass: "fileFilter part_txt"
    by (simp add: fileFilter_def part_txt_def allowedExtensions_def extname_def basename_def
        toLowerCase_def lower_of_def)
  have good: "\<not> i_size part_txt > fileSize_limit" "i_fieldname part_txt = ''files''"
    "i_originalname part_txt \<noteq> []"
    by (simp_all add: part_txt_def fileSize_limit_def)
  have "i_originalname part_nameless = []"
    by (simp add: part_nameless_def)
  with pass good have skipped: "upload_array [part_txt, part_nameless] = Inr [disk_store part_txt]"
    by (simp add: upload_array_def)
  from bin one many eleven skipped show ?thesis
    by blast
qed

theorem unsupported_extension_counterexample:
  "toLowerCase (extname (i_originalname part_exe)) = ''.exe''
   \<and> ''.exe'' \<notin> set allowedExtensions
   \<and> files db1 = []
   \<and> (\<exists>rows d'. upload_route remote_ok db1 7 1 [part_exe] = (Handled (Json200 (rows, [])), d')
        \<and> map f_originalName (files d') = [''notes.exe''])"
proof -
  have ext: "toLowerCase (extname (i_originalname part_exe)) = ''.exe''"
    by (simp add: part_exe_def extname_def basename_def toLowerCase_def lower_of_def)
  have no: "''.exe'' \<notin> set allowedExtensions"
    by (simp add: allowedExtensions_def)
  have pass: "fileFilter part_exe"
    by (simp add: fileFilter_def part_exe_def allowedTypes_def)
  have size: "\<not> i_size part_exe > fileSize_limit" "i_fieldname part_exe = ''files''"
    "i_originalname part_exe \<noteq> []"
    by (simp_all add: part_exe_def fileSize_limit_def)
  have stored: "upload_array [part_exe] = Inr [disk_store part_exe]"
    using pass size by (simp add: upload_array_def)
  have owner: "project_findFirst db1 1 7 \<noteq> None"
    by (simp add: project_findFirst_def db1_def)
  have name: "mf_originalname (disk_store part_exe) = ''notes.exe''"
    by (simp add: disk_store_def part_exe_def Let_def)
  have "\<exists>rows d'. upload_handler remote_ok db1 7 1 [disk_store part_exe]
                    = (Json200 (rows, []), d')
                  \<and> map f_originalName (files d') = [''notes.exe'']"
    using owner name
    by (auto simp: upload_handler_def process_file_def file_create_def file_update_def
        remote_ok_def set_processed_def Let_def db1_def)
  then show ?thesis
    using ext no stored by (auto simp: upload_route_def db1_def)
qed

section \<open>Properties of the upload handler\<close>

text \<open>
  C6. The route creates the row of an uploaded file with status \<^verbatim>\<open>uploading\<close> and no
  external reference. When staging the file at the external store is answered with a
  success whose body carries no \<^verbatim>\<open>id\<close>, the route updates the row to status
  \<^verbatim>\<open>processed\<close> and leaves its external reference null, and answers with status 200.
  The preview route then reports this processed file as not processed yet.
\<close>

theorem processed_without_reference:
  "upload_array [part_txt] = Inr [disk_store part_txt]
   \<and> remote_no_id (mf_path (disk_store part_txt)) (mf_originalname (disk_store part_txt))
       = Uploaded None
   \<and> map (\<lambda>r. (f_id r, f_status r, f_openaiFileId r))
         (files (snd (file_create db_made 0 (disk_store part_txt))))
       = [(1, Uploading, None)]
   \<and> map (\<lambda>r. (f_id r, f_status r, f_openaiFileId r))
         (files (snd (upload_route remote_no_id db_made 7 0 [part_txt])))
       = [(1, Processed, None)]
   \<and> (case fst (upload_route remote_no_id db_made 7 0 [part_txt]) of
         Handled (Json200 (rows, errors)) \<Rightarrow>
           map (\<lambda>r. (f_id r, f_status r, f_openaiFileId r)) rows = [(1, Processed, None)]
       | _ \<Rightarrow> False)
   \<and> file_content fetch_none (snd (upload_route remote_no_id db_made 7 0 [part_txt])) 7 1
       = Error400 ''File not processed yet''"
proof -
  have pass: "fileFilter part_txt"
    by (simp add: fileFilter_def part_txt_def allowedExtensions_def extname_def basename_def
        toLowerCase_def lower_of_def)
  have good: "\<not> i_size part_txt > fileSize_limit" "i_fieldname part_txt = ''files''"
    "i_originalname part_txt \<noteq> []"
    by (simp_all add: part_txt_def fileSize_limit_def)
  have stored: "upload_array [part_txt] = Inr [disk_store part_txt]"
    using pass good by (simp add: upload_array_def)
  have reply: "remote_no_id (mf_path (disk_store part_txt)) (mf_originalname (disk_store part_txt))
                 = Uploaded None"
    by (simp add: remote_no_id_def)
  have made: "files db_made = []" "next_id db_made = 1" "projects db_made 0 = Some tutor"
    by (simp_all add: db_made_def)
  have owner: "project_findFirst db_made 0 7 = Some tutor"
    by (simp add: project_findFirst_def made tutor_def)
  have created: "map (\<lambda>r. (f_id r, f_status r, f_openaiFileId r))
                   (files (snd (file_create db_made 0 (disk_store part_txt))))
                 = [(1, Uploading, None)]"
    by (simp add: file_create_def Let_def made)
  define d' where "d' = snd (upload_route remote_no_id db_made 7 0 [part_txt])"
  have run: "upload_route remote_no_id db_made 7 0 [part_txt]
               = (Handled (Json200
                    ([(fst (file_create db_made 0 (disk_store part_txt)))
                        \<lparr>f_openaiFileId := None, f_status := Processed\<rparr>], [])),
                  d')"
    unfolding d'_def
    by (simp add: upload_route_def stored upload_handler_def owner process_file_def
        case_prod_beta reply Let_def)
  have rows: "files d' = [set_processed None (fst (file_create db_made 0 (disk_store part_txt)))]"
    unfolding d'_def
    by (simp add: upload_route_def stored upload_handler_def owner process_file_def
        case_prod_beta reply Let_def file_update_def file_create_def made)
  have final: "map (\<lambda>r. (f_id r, f_status r, f_openaiFileId r)) (files d') = [(1, Processed, None)]"
    by (simp add: rows set_processed_def file_create_def Let_def made)
  have pushed: "map (\<lambda>r. (f_id r, f_status r, f_openaiFileId r))
                  [(fst (file_create db_made 0 (disk_store part_txt)))
                     \<lparr>f_openaiFileId := None, f_status := Processed\<rparr>]
                = [(1, Processed, None)]"
    by (simp add: file_create_def Let_def made)
  have kept: "projects d' = projects db_made"
    unfolding d'_def by (rule upload_route_projects)
  have preview: "file_content fetch_none d' 7 1 = Error400 ''File not processed yet''"
    by (simp add: file_content_def rows set_processed_def file_create_def Let_def made
        project_owned_def project_findFirst_def kept tutor_def truthy_def)
  show ?thesis
    using stored reply created final pushed preview
    by (simp add: run d'_def [symmetric])
qed

end
